theory Spec2Isabelle
  imports Main
begin

section \<open>JavaScript values and thrown errors\<close>

text \<open>
  The handlers read properties that may be absent (\<open>err.status\<close>, \<open>error.statusCode\<close>)
  and pass a boolean where a string is expected, so the values that travel in error
  objects and in the arguments of \<open>errorResponse\<close> are modelled as untyped JavaScript
  values.
\<close>

datatype js_value = JUndefined | JBool bool | JNum nat | JStr string

text \<open>JavaScript truthiness, as used by \<open>err.status || 500\<close>.\<close>

fun truthy :: "js_value \<Rightarrow> bool" where
  "truthy JUndefined = False"
| "truthy (JBool b) = b"
| "truthy (JNum n) = (n \<noteq> 0)"
| "truthy (JStr s) = (s \<noteq> [])"

definition or_else :: "js_value \<Rightarrow> js_value \<Rightarrow> js_value" where
  "or_else a b = (if truthy a then a else b)"

text \<open>Decimal digits; \<open>digit_char\<close> is only applied to numbers below ten.\<close>

definition digit_char :: "nat \<Rightarrow> char" where
  "digit_char n = ''0123456789'' ! n"

function string_of_nat :: "nat \<Rightarrow> string" where
  "string_of_nat n =
     (if n < 10 then [digit_char n] else string_of_nat (n div 10) @ [digit_char (n mod 10)])"
  by pat_completeness auto
termination
  by (relation "measure (\<lambda>n. n)") auto


text \<open>
  A thrown object. \<open>new Error(m)\<close> has a message and no status. \<open>ApiError\<close> lives in
  \<open>utils\<close>, which is not among the sources.
\<close>

record js_error =
  status :: js_value
  message :: js_value

definition Error :: "string \<Rightarrow> js_error" where
  "Error m = \<lparr>status = JUndefined, message = JStr m\<rparr>"

text \<open>
  Modelled from the spec: the class \<open>ApiError\<close> of \<open>utils\<close> is missing from the
  sources; the spec describes it as \<open>ApiError{status,message}\<close>, an explicit domain error
  with the HTTP status attached, and the message is kept as it is passed (a boolean stays
  a boolean).
\<close>

definition ApiError :: "nat \<Rightarrow> js_value \<Rightarrow> js_error" where
  "ApiError s m = \<lparr>status = JNum s, message = m\<rparr>"

text \<open>
  Neither \<open>Error\<close> nor \<open>ApiError{status,message}\<close> has a property \<open>statusCode\<close>:
  reading it yields \<open>undefined\<close>.
\<close>

definition statusCode :: "js_error \<Rightarrow> js_value" where
  "statusCode e = JUndefined"

section \<open>Data model\<close>

text \<open>
  A user object: the columns of a row of the \<open>User\<close> table, and the \<open>token\<close> property
  that the controller attaches to the object it got from the accessor.
\<close>

record user =
  uid :: nat
  email :: string
  password :: string
  firstName :: string
  lastName :: string
  role :: string
  isVerified :: bool
  token :: "string option"

text \<open>
  The object handed to \<open>UserService.create\<close>: the signup body. \<open>signUp\<close> passes
  \<open>{ ...body }\<close> and \<open>create\<close> passes that object on to \<open>User.create\<close>, so every
  property the client puts into the body reaches the store. Besides the profile and the
  password, the body may carry \<open>isVerified\<close> (\<open>None\<close>: the property is absent).
\<close>

record new_user =
  b_email :: string
  b_password :: string
  b_firstName :: string
  b_lastName :: string
  b_role :: string
  b_isVerified :: "bool option"

text \<open>Token claims: \<open>{ id, email?, role?, firstName? }\<close>.\<close>

record claims =
  c_id :: nat
  c_email :: "string option"
  c_role :: "string option"
  c_firstName :: "string option"

text \<open>The externally authenticated identity: \<open>userData.emails[i].value\<close>.\<close>

record identity =
  emails :: "string list"

record request =
  body :: new_user
  query_token :: "string option"
  params_email :: string
  protocol :: string
  host :: string
  req_user :: identity
  req_cookies :: "(string \<times> string) list"

text \<open>
  Modelled from the spec: the class \<open>UserResponse\<close> of \<open>utils\<close> is missing from the
  sources; it projects a user record into a client-safe representation that strips the
  password hash and includes the token when present.
\<close>

record user_response =
  r_id :: nat
  r_email :: string
  r_firstName :: string
  r_lastName :: string
  r_role :: string
  r_isVerified :: bool
  r_token :: "string option"

definition UserResponse :: "user \<Rightarrow> user_response" where
  "UserResponse u =
     \<lparr>r_id = uid u, r_email = email u, r_firstName = firstName u, r_lastName = lastName u,
      r_role = role u, r_isVerified = isVerified u, r_token = token u\<rparr>"

section \<open>The persistent user store\<close>

text \<open>
  The table is the list of its rows. \<open>fault\<close> is the error with which every query
  rejects while the store is unavailable (\<open>None\<close>: the store answers).
  \<open>isVerified_default\<close> is the default of the column \<open>isVerified\<close>; the schema that
  declares it is not among the sources, so it is a parameter of the table.
\<close>

record store =
  rows :: "user list"
  fault :: "js_error option"
  isVerified_default :: bool

text \<open>
  Modelled from the spec: the ORM model \<open>db.User\<close> (\<open>models\<close>) is missing from the
  sources. Its contract: \<open>findOne(email) \<rightarrow> user|null\<close>; \<open>update\<close> with \<open>returning\<close>
  yields the affected-row count and the updated rows; \<open>create(user) \<rightarrow> user\<close>, where the
  store enforces unique email. \<open>create\<close> stores the properties it is given: a row gets
  the \<open>isVerified\<close> of the object when the object has one, and the column default
  otherwise.
\<close>

definition User_findOne :: "(user \<Rightarrow> bool) \<Rightarrow> store \<Rightarrow> js_error + user option" where
  "User_findOne wh db =
     (case fault db of
        Some err \<Rightarrow> Inl err
      | None \<Rightarrow> Inr (find wh (rows db)))"

definition User_update ::
  "(user \<Rightarrow> user) \<Rightarrow> (user \<Rightarrow> bool) \<Rightarrow> store \<Rightarrow> store \<times> (js_error + nat \<times> user list)" where
  "User_update values wh db =
     (case fault db of
        Some err \<Rightarrow> (db, Inl err)
      | None \<Rightarrow>
          (db\<lparr>rows := map (\<lambda>u. if wh u then values u else u) (rows db)\<rparr>,
           Inr (length (filter wh (rows db)), map values (filter wh (rows db)))))"

definition fresh_id :: "user list \<Rightarrow> nat" where
  "fresh_id us = Suc (fold max (map uid us) 0)"

definition User_create :: "new_user \<Rightarrow> store \<Rightarrow> store \<times> (js_error + user)" where
  "User_create b db =
     (case fault db of
        Some err \<Rightarrow> (db, Inl err)
      | None \<Rightarrow>
          (if list_ex (\<lambda>u. email u = b_email b) (rows db)
           then (db, Inl (Error ''Validation error''))
           else
             (let newUser =
                \<lparr>uid = fresh_id (rows db), email = b_email b, password = b_password b,
                 firstName = b_firstName b, lastName = b_lastName b, role = b_role b,
                 isVerified =
                   (case b_isVerified b of
                      Some v \<Rightarrow> v
                    | None \<Rightarrow> isVerified_default db),
                 token = None\<rparr>
              in (db\<lparr>rows := rows db @ [newUser]\<rparr>, Inr newUser))))"

section \<open>Collaborators taken as parameters\<close>

text \<open>An outgoing verification mail, as handed to the mail provider.\<close>

record mail =
  to :: string
  sender :: string
  templateId :: string
  name :: string
  verification_link :: string

text \<open>The argument of \<open>sendResetMail\<close>.\<close>

record reset_mail =
  rm_email :: string
  rm_firstName :: string
  resetPasswordLink :: string

text \<open>
  The helpers of \<open>utils\<close> (\<open>hashPassword\<close>, \<open>comparePassword\<close>, \<open>generateToken\<close>,
  \<open>verifyToken\<close>, \<open>generateVerificationLink\<close>), the mailer's \<open>sendResetMail\<close>, the mail
  provider's \<open>send\<close> and the configured \<open>ADMIN_EMAIL\<close> are not among the sources: the
  handlers are modelled for every choice of them. The hasher is salted; \<open>hashPassword\<close>
  stands for the hasher with the salt it draws in this request. \<open>generateToken\<close> takes
  the claims and the optional \<open>expiresIn\<close>; \<open>verifyToken\<close> returns the claims or throws;
  \<open>sendgrid_send\<close> resolves or rejects.
\<close>

record env =
  hashPassword :: "string \<Rightarrow> string"
  comparePassword :: "string \<Rightarrow> string \<Rightarrow> bool"
  generateToken :: "claims \<Rightarrow> string option \<Rightarrow> string"
  verifyToken :: "string option \<Rightarrow> js_error + claims"
  generateVerificationLink :: "request \<Rightarrow> claims \<Rightarrow> string"
  sendgrid_send :: "mail \<Rightarrow> js_error + unit"
  sendResetMail :: "reset_mail \<Rightarrow> bool"
  ADMIN_EMAIL :: string

section \<open>UserService\<close>

text \<open>
  \<open>create\<close> assigns to \<open>user.password\<close> before it persists: the first component of the
  result is the caller's object after the call.
\<close>

definition create :: "env \<Rightarrow> new_user \<Rightarrow> store \<Rightarrow> new_user \<times> store \<times> (js_error + user)" where
  "create e user db =
     (let user' = user\<lparr>b_password := hashPassword e (b_password user)\<rparr>
      in (user', User_create user' db))"

text \<open>
  \<open>const [rowaffected, [user]] = await User.update(...)\<close>: \<open>user\<close> is the first
  returned row, \<open>undefined\<close> (\<open>None\<close>) when there is none.
\<close>

definition updateById ::
  "(user \<Rightarrow> user) \<Rightarrow> nat \<Rightarrow> store \<Rightarrow> store \<times> (js_error + user option)" where
  "updateById userData i db =
     (case User_update userData (\<lambda>u. uid u = i) db of
        (db', Inl err) \<Rightarrow> (db', Inl err)
      | (db', Inr (rowaffected, returned)) \<Rightarrow>
          (if rowaffected = 0 then (db', Inl (Error ''Not Found''))
           else (db', Inr (case returned of [] \<Rightarrow> None | u # _ \<Rightarrow> Some u))))"

definition find_user :: "string \<Rightarrow> store \<Rightarrow> js_error + user option" where
  "find_user em db = User_findOne (\<lambda>u. email u = em) db"

definition updatePassword ::
  "env \<Rightarrow> string \<Rightarrow> string \<Rightarrow> store \<Rightarrow> store \<times> (js_error + nat \<times> user list)" where
  "updatePassword e pw em db =
     (let hashedPassword = hashPassword e pw
      in User_update (\<lambda>u. u\<lparr>password := hashedPassword\<rparr>) (\<lambda>u. email u = em) db)"

text \<open>
  \<open>UserService.socialLogin\<close>. The \<open>throw\<close> of the 403 error stands inside the \<open>try\<close>
  block, so the \<open>catch\<close> receives it like any other error.
\<close>

definition TypeError_emails :: js_error where
  "TypeError_emails = Error ''Cannot read property 'value' of undefined''"

definition UserService_socialLogin :: "identity \<Rightarrow> store \<Rightarrow> js_error + user" where
  "UserService_socialLogin userData db =
     (let attempt =
        (case emails userData of
           [] \<Rightarrow> Inl TypeError_emails
         | em # _ \<Rightarrow>
             (case User_findOne (\<lambda>u. email u = em) db of
                Inl err \<Rightarrow> Inl err
              | Inr None \<Rightarrow> Inl (ApiError 403 (JStr ''You need to signup to use this feature''))
              | Inr (Some existingUser) \<Rightarrow> Inr existingUser))
      in case attempt of
           Inl error \<Rightarrow> Inl (ApiError 500 (message error))
         | Inr u \<Rightarrow> Inr u)"

definition userLogin :: "string \<Rightarrow> store \<Rightarrow> js_error + user option" where
  "userLogin em db = User_findOne (\<lambda>u. email u = em) db"

section \<open>Mailer\<close>

text \<open>A call of the mailer, as observed from outside.\<close>

datatype mail_call = VerificationMail mail | ResetMail reset_mail

text \<open>
  \<open>Mailer.sendVerificationEmail(req, {id, email, firstName, role})\<close>: builds the
  link over \<open>{id, firstName, role}\<close>, hands the mail to the provider, and answers
  \<open>true\<close> when the provider resolves and \<open>false\<close> when it rejects. The second
  component is the mail handed over.
\<close>

definition sendVerificationEmail :: "env \<Rightarrow> request \<Rightarrow> user_response \<Rightarrow> bool \<times> mail" where
  "sendVerificationEmail e req opts =
     (let verificationLink =
            generateVerificationLink e req
              \<lparr>c_id = r_id opts, c_email = None, c_role = Some (r_role opts),
               c_firstName = Some (r_firstName opts)\<rparr>;
          m = \<lparr>to = r_email opts, sender = ADMIN_EMAIL e,
               templateId = ''d-a1922b184048430088fd7d0bf446cd06'',
               name = r_firstName opts, verification_link = verificationLink\<rparr>
      in case sendgrid_send e m of
           Inr _ \<Rightarrow> (True, m)
         | Inl _ \<Rightarrow> (False, m))"

section \<open>Responses\<close>

text \<open>\<open>res.cookie(name, value, { maxAge, httpOnly })\<close>.\<close>

record cookie =
  cookie_name :: string
  cookie_value :: "string option"
  maxAge :: nat
  httpOnly :: bool

text \<open>The data argument of \<open>successResponse\<close>.\<close>

datatype response_data =
    UserData user_response
  | SignupData user_response bool
  | Text string
  | CodeMessage nat string

text \<open>
  The helpers \<open>successResponse(res, data, code)\<close> and \<open>errorResponse(res, {code,
  message})\<close> are not among the sources. A reply records which of them the handler
  called and with which arguments: the optional status code of \<open>successResponse\<close>, and
  the \<open>code\<close> and \<open>message\<close> of \<open>errorResponse\<close>, \<open>undefined\<close> where the handler
  passes none (\<open>errorResponse(res, {})\<close> is the generic error response).
\<close>

datatype reply =
    SuccessResponse response_data "nat option"
  | ErrorResponse js_value js_value

text \<open>What a handler leaves behind: the store, the effects on \<open>res\<close>, the mailer calls.\<close>

record outcome =
  db :: store
  cookies :: "cookie list"
  clearedCookies :: "string list"
  mails :: "mail_call list"
  sent :: reply

definition respond :: "store \<Rightarrow> reply \<Rightarrow> outcome" where
  "respond d r = \<lparr>db = d, cookies = [], clearedCookies = [], mails = [], sent = r\<rparr>"

section \<open>AuthController\<close>

definition signUp :: "env \<Rightarrow> request \<Rightarrow> store \<Rightarrow> outcome" where
  "signUp e req d =
     (case create e (body req) d of
        (_, d', Inl error) \<Rightarrow> respond d' (ErrorResponse JUndefined JUndefined)
      | (_, d', Inr created) \<Rightarrow>
          (let user = created\<lparr>token :=
                 Some (generateToken e
                   \<lparr>c_id = uid created, c_email = Some (email created),
                    c_role = Some (role created), c_firstName = None\<rparr> None)\<rparr>;
               userResponse = UserResponse user;
               (isSent, m) = sendVerificationEmail e req userResponse;
               tok = r_token userResponse
           in \<lparr>db = d',
               cookies = [\<lparr>cookie_name = ''token'', cookie_value = tok,
                           maxAge = 86400000, httpOnly = True\<rparr>],
               clearedCookies = [],
               mails = [VerificationMail m],
               sent = SuccessResponse (SignupData userResponse isSent) (Some 201)\<rparr>))"

text \<open>The \<open>catch\<close> block of \<open>verifyEmail\<close>.\<close>

definition verifyEmail_catch :: "js_error \<Rightarrow> reply" where
  "verifyEmail_catch err =
     (if message err = JStr ''Invalid Token''
      then ErrorResponse (JNum 400) (JStr ''Invalid token, verification unsuccessful'')
      else if message err = JStr ''Not Found''
      then ErrorResponse (JNum 400) (JStr ''no user found to verify'')
      else ErrorResponse JUndefined JUndefined)"

text \<open>
  \<open>new UserResponse(user)\<close> reads the properties of \<open>user\<close>; on \<open>undefined\<close> that read
  throws a \<open>TypeError\<close>.
\<close>

definition TypeError_user :: js_error where
  "TypeError_user = Error ''Cannot read property 'id' of undefined''"

definition verifyEmail :: "env \<Rightarrow> request \<Rightarrow> store \<Rightarrow> outcome" where
  "verifyEmail e req d =
     (case verifyToken e (query_token req) of
        Inl err \<Rightarrow> respond d (verifyEmail_catch err)
      | Inr decoded \<Rightarrow>
          (case updateById (\<lambda>u. u\<lparr>isVerified := True\<rparr>) (c_id decoded) d of
             (d', Inl err) \<Rightarrow> respond d' (verifyEmail_catch err)
           | (d', Inr None) \<Rightarrow> respond d' (verifyEmail_catch TypeError_user)
           | (d', Inr (Some user)) \<Rightarrow>
               respond d' (SuccessResponse (UserData (UserResponse user)) None)))"

text \<open>
  The \<open>catch\<close> block shared by \<open>sendResetPasswordEmail\<close> and \<open>resetPassword\<close>:
  \<open>errorResponse(res, { code: err.status || 500, message: err.message })\<close>.
\<close>

definition status_catch :: "js_error \<Rightarrow> reply" where
  "status_catch err = ErrorResponse (or_else (status err) (JNum 500)) (message err)"

definition sendResetPasswordEmail :: "env \<Rightarrow> request \<Rightarrow> store \<Rightarrow> outcome" where
  "sendResetPasswordEmail e req d =
     (let em = b_email (body req) in
      case find_user em d of
        Inl err \<Rightarrow> respond d (status_catch err)
      | Inr None \<Rightarrow> respond d (status_catch (ApiError 404 (JStr ''User account does not exist'')))
      | Inr (Some user) \<Rightarrow>
          (let tok = generateToken e
                 \<lparr>c_id = uid user, c_email = Some em, c_role = None,
                  c_firstName = Some (firstName user)\<rparr> (Some ''24h'');
               url = protocol req @ ''://'' @ host req @ ''/api/auth/reset-password?token='' @ tok;
               m = \<lparr>rm_email = em, rm_firstName = firstName user, resetPasswordLink = url\<rparr>;
               response = sendResetMail e m
           in (respond d
                 (if response = True
                  then SuccessResponse (Text ''Password reset link sent successfully'') (Some 200)
                  else status_catch (ApiError 404 (JBool response))))
              \<lparr>mails := [ResetMail m]\<rparr>))"

definition resetPassword :: "env \<Rightarrow> request \<Rightarrow> store \<Rightarrow> outcome" where
  "resetPassword e req d =
     (let pw = b_password (body req); em = params_email req in
      case updatePassword e pw em d of
        (d', Inl err) \<Rightarrow> respond d' (status_catch err)
      | (d', Inr (updatedPassword, _)) \<Rightarrow>
          (if updatedPassword = 1
           then respond d' (SuccessResponse (Text ''Password has been changed successfully'') (Some 200))
           else respond d' (status_catch (ApiError 404 (JStr ''User account does not exist'')))))"


definition loginUser :: "env \<Rightarrow> request \<Rightarrow> store \<Rightarrow> outcome" where
  "loginUser e req d =
     (let em = b_email (body req); pw = b_password (body req) in
      case userLogin em d of
        Inl error \<Rightarrow> respond d (ErrorResponse JUndefined JUndefined)
      | Inr None \<Rightarrow> respond d (ErrorResponse (JNum 401) (JStr ''Invalid login details''))
      | Inr (Some found) \<Rightarrow>
          (if \<not> comparePassword e pw (password found)
           then respond d (ErrorResponse (JNum 401) (JStr ''Invalid login details''))
           else
             (let user = found\<lparr>token :=
                    Some (generateToken e
                      \<lparr>c_id = uid found, c_email = Some (email found),
                       c_role = Some (role found), c_firstName = None\<rparr> None)\<rparr>;
                  loginResponse = UserResponse user;
                  tok = r_token loginResponse
              in (respond d (SuccessResponse (UserData loginResponse) None))
                 \<lparr>cookies := [\<lparr>cookie_name = ''token'', cookie_value = tok,
                               maxAge = 86400000, httpOnly = True\<rparr>]\<rparr>)))"

definition socialLogin :: "env \<Rightarrow> request \<Rightarrow> store \<Rightarrow> outcome" where
  "socialLogin e req d =
     (case UserService_socialLogin (req_user req) d of
        Inl error \<Rightarrow> respond d (ErrorResponse (statusCode error) (message error))
      | Inr found \<Rightarrow>
          (let user = found\<lparr>token :=
                 Some (generateToken e
                   \<lparr>c_id = uid found, c_email = Some (email found),
                    c_role = Some (role found), c_firstName = None\<rparr> None)\<rparr>;
               userResponse = UserResponse user
           in respond d (SuccessResponse (UserData userResponse) (Some 200))))"


section \<open>The flow as a state machine\<close>




section \<open>Token codec\<close>

text \<open>
  Modelled from the spec: the helpers \<open>generateToken\<close> and \<open>verifyToken\<close> of \<open>utils\<close>
  are missing from the sources. The spec's token codec: \<open>issue(claims, ttl=default)\<close>
  gives a signed token that embeds the claims and an expiry, with no side effects;
  \<open>verify(token)\<close> gives the claims if the signature is valid and the token has not
  expired; it fails for a bad signature or shape, or for expiry, and both failures reach
  the caller as \<open>InvalidToken\<close>. The clock is the argument \<open>now\<close>, in the unit of the
  time to live; the signing function and the secret are parameters.
\<close>

record codec =
  secret :: nat
  sign :: "nat \<Rightarrow> claims \<times> nat \<Rightarrow> nat"
  default_ttl :: nat

record signed_token =
  payload :: claims
  expiry :: nat
  signature :: nat

datatype token_failure = BadSignature | TokenExpired

definition InvalidToken :: js_error where
  "InvalidToken = Error ''Invalid Token''"

definition issue :: "codec \<Rightarrow> nat \<Rightarrow> claims \<Rightarrow> nat option \<Rightarrow> signed_token" where
  "issue k now c ttl =
     (let ex = now + (case ttl of None \<Rightarrow> default_ttl k | Some t \<Rightarrow> t)
      in \<lparr>payload = c, expiry = ex, signature = sign k (secret k) (c, ex)\<rparr>)"

definition decode :: "codec \<Rightarrow> nat \<Rightarrow> signed_token \<Rightarrow> token_failure + claims \<times> nat" where
  "decode k now t =
     (if signature t \<noteq> sign k (secret k) (payload t, expiry t) then Inl BadSignature
      else if expiry t \<le> now then Inl TokenExpired
      else Inr (payload t, expiry t))"

definition verify :: "codec \<Rightarrow> nat \<Rightarrow> signed_token \<Rightarrow> js_error + claims \<times> nat" where
  "verify k now t =
     (case decode k now t of
        Inl _ \<Rightarrow> Inl InvalidToken
      | Inr decoded \<Rightarrow> Inr decoded)"

section \<open>Sample data\<close>

definition alice :: user where
  "alice =
     \<lparr>uid = 1, email = ''alice@example.com'', password = ''h:wonderland'',
      firstName = ''Alice'', lastName = ''Liddell'', role = ''user'',
      isVerified = False, token = None\<rparr>"

definition demo_store :: store where
  "demo_store = \<lparr>rows = [alice], fault = None, isVerified_default = False\<rparr>"

definition alice_claims :: claims where
  "alice_claims =
     \<lparr>c_id = 1, c_email = Some ''alice@example.com'', c_role = Some ''user'',
      c_firstName = None\<rparr>"

definition demo_env :: env where
  "demo_env =
     \<lparr>hashPassword = (\<lambda>p. ''h:'' @ p),
      comparePassword = (\<lambda>p h. h = ''h:'' @ p),
      generateToken = (\<lambda>c ttl. ''jwt'' @ string_of_nat (c_id c)),
      verifyToken = (\<lambda>t. if t = Some ''jwt1'' then Inr alice_claims
                          else Inl (Error ''Invalid Token'')),
      generateVerificationLink = (\<lambda>req c. ''http://localhost/api/auth/verify''),
      sendgrid_send = (\<lambda>m. Inl (Error ''Unauthorized'')),
      sendResetMail = (\<lambda>m. False),
      ADMIN_EMAIL = ''admin@example.com''\<rparr>"

definition bob_body :: new_user where
  "bob_body =
     \<lparr>b_email = ''bob@example.com'', b_password = ''builder'', b_firstName = ''Bob'',
      b_lastName = ''Stone'', b_role = ''user'', b_isVerified = None\<rparr>"

definition demo_request :: request where
  "demo_request =
     \<lparr>body = bob_body, query_token = None, params_email = ''alice@example.com'',
      protocol = ''http'', host = ''localhost'',
      req_user = \<lparr>emails = [''bob@example.com'']\<rparr>, req_cookies = []\<rparr>"

definition demo_codec :: codec where
  "demo_codec = \<lparr>secret = 42, sign = (\<lambda>key (c, ex). key + c_id c + ex), default_ttl = 3600\<rparr>"

section \<open>Properties of the authentication flow\<close>

lemmas demo_defs =
  demo_store_def demo_request_def demo_env_def alice_def bob_body_def alice_claims_def

subsection \<open>Social login\<close>

text \<open>
  C1. Social login for an identity whose email has no local user record is meant to fail
  with status 403 and the message "You need to signup to use this feature". Evaluated on
  a store that holds only Alice and an identity with Bob's email: the accessor's own
  \<open>catch\<close> re-wraps its 403 error into a 500 error, and the controller, which reads
  \<open>statusCode\<close> where the error carries \<open>status\<close>, passes no status code at all to
  \<open>errorResponse\<close>; only the message survives.
\<close>

theorem socialLogin_unknown_email_not_403:
  "UserService_socialLogin (req_user demo_request) demo_store
     = Inl (ApiError 500 (JStr ''You need to signup to use this feature''))
   \<and> sent (socialLogin e demo_request demo_store)
     = ErrorResponse JUndefined (JStr ''You need to signup to use this feature'')
   \<and> sent (socialLogin e demo_request demo_store)
     \<noteq> ErrorResponse (JNum 403) (JStr ''You need to signup to use this feature'')"
  by (simp add: socialLogin_def UserService_socialLogin_def User_findOne_def demo_defs
      ApiError_def statusCode_def respond_def)

subsection \<open>Login\<close>

text \<open>
  C2. The two failure cases of login, no user record with the given email and a user
  whose stored hash does not match the supplied password, give the same response: status
  401 with message "Invalid login details". The whole outcome (store, cookies, mails and
  reply) of the two requests is the same.
\<close>

theorem loginUser_failures_identical:
  assumes "userLogin (b_email (body req1)) d = Inr None"
    and "userLogin (b_email (body req2)) d = Inr (Some u)"
    and "\<not> comparePassword e (b_password (body req2)) (password u)"
  shows "sent (loginUser e req1 d) = ErrorResponse (JNum 401) (JStr ''Invalid login details'')
       \<and> loginUser e req2 d = loginUser e req1 d"
  using assms by (simp add: loginUser_def respond_def)

theorem loginUser_failures_identical_witness:
  "userLogin (b_email (body demo_request)) demo_store = Inr None
   \<and> userLogin (b_email (body (demo_request\<lparr>body := bob_body\<lparr>b_email := ''alice@example.com''\<rparr>\<rparr>)))
       demo_store = Inr (Some alice)
   \<and> \<not> comparePassword demo_env
         (b_password (body (demo_request\<lparr>body := bob_body\<lparr>b_email := ''alice@example.com''\<rparr>\<rparr>)))
         (password alice)
   \<and> sent (loginUser demo_env demo_request demo_store)
       = ErrorResponse (JNum 401) (JStr ''Invalid login details'')
   \<and> loginUser demo_env (demo_request\<lparr>body := bob_body\<lparr>b_email := ''alice@example.com''\<rparr>\<rparr>)
         demo_store
       = loginUser demo_env demo_request demo_store"
proof -
  let ?r2 = "demo_request\<lparr>body := bob_body\<lparr>b_email := ''alice@example.com''\<rparr>\<rparr>"
  have h1: "userLogin (b_email (body demo_request)) demo_store = Inr None"
    by (simp add: userLogin_def User_findOne_def demo_defs)
  have h2: "userLogin (b_email (body ?r2)) demo_store = Inr (Some alice)"
    by (simp add: userLogin_def User_findOne_def demo_defs)
  have h3: "\<not> comparePassword demo_env (b_password (body ?r2)) (password alice)"
    by (simp add: demo_defs)
  from loginUser_failures_identical [OF h1 h2 h3] h1 h2 h3 show ?thesis by blast
qed

subsection \<open>Password reset\<close>

text \<open>
  C3. \<open>resetPassword\<close> verifies no token: its outcome, the updated store and the
  response, is determined by the path email and the new password (and the hasher) alone.
  Two requests that agree on these have the same outcome, whatever token they present and
  whatever the token verifier would say.
\<close>

theorem resetPassword_ignores_token:
  assumes "params_email req1 = params_email req2"
    and "b_password (body req1) = b_password (body req2)"
    and "hashPassword e1 = hashPassword e2"
  shows "resetPassword e1 req1 d = resetPassword e2 req2 d"
  using assms by (simp add: resetPassword_def updatePassword_def)

theorem resetPassword_ignores_token_witness:
  "params_email demo_request = params_email (demo_request\<lparr>query_token := Some ''jwt1''\<rparr>)
   \<and> b_password (body demo_request)
       = b_password (body (demo_request\<lparr>query_token := Some ''jwt1''\<rparr>))
   \<and> hashPassword (demo_env\<lparr>verifyToken := \<lambda>t. Inl (Error ''Invalid Token'')\<rparr>)
       = hashPassword demo_env
   \<and> resetPassword (demo_env\<lparr>verifyToken := \<lambda>t. Inl (Error ''Invalid Token'')\<rparr>)
         demo_request demo_store
       = resetPassword demo_env (demo_request\<lparr>query_token := Some ''jwt1''\<rparr>) demo_store
   \<and> sent (resetPassword demo_env (demo_request\<lparr>query_token := Some ''jwt1''\<rparr>) demo_store)
       = SuccessResponse (Text ''Password has been changed successfully'') (Some 200)
   \<and> map password
         (rows (db (resetPassword demo_env (demo_request\<lparr>query_token := Some ''jwt1''\<rparr>)
            demo_store)))
       = [''h:builder'']"
proof -
  let ?e1 = "demo_env\<lparr>verifyToken := \<lambda>t. Inl (Error ''Invalid Token'')\<rparr>"
  let ?r2 = "demo_request\<lparr>query_token := Some ''jwt1''\<rparr>"
  have h1: "params_email demo_request = params_email ?r2" by simp
  have h2: "b_password (body demo_request) = b_password (body ?r2)" by simp
  have h3: "hashPassword ?e1 = hashPassword demo_env" by simp
  have ev: "sent (resetPassword demo_env ?r2 demo_store)
       = SuccessResponse (Text ''Password has been changed successfully'') (Some 200)
     \<and> map password (rows (db (resetPassword demo_env ?r2 demo_store))) = [''h:builder'']"
    by (simp add: resetPassword_def updatePassword_def User_update_def respond_def Let_def
        demo_defs)
  from resetPassword_ignores_token [OF h1 h2 h3, of demo_store] h1 h2 h3 ev
  show ?thesis by blast
qed

text \<open>
  C5. When the password-update accessor reports an affected-row count of exactly 1,
  \<open>resetPassword\<close> responds 200 with "Password has been changed successfully"; when it
  reports 0 rows, the operation fails with status 404 and message "User account does not
  exist". The store it leaves is the one the accessor returned.
\<close>

theorem resetPassword_row_count:
  assumes "updatePassword e (b_password (body req)) (params_email req) d = (d', Inr (n, us))"
  shows "(n = 1 \<longrightarrow> sent (resetPassword e req d)
            = SuccessResponse (Text ''Password has been changed successfully'') (Some 200))
       \<and> (n = 0 \<longrightarrow> sent (resetPassword e req d)
            = ErrorResponse (JNum 404) (JStr ''User account does not exist''))
       \<and> db (resetPassword e req d) = d'"
  using assms
  by (simp add: resetPassword_def respond_def status_catch_def ApiError_def or_else_def)

theorem resetPassword_row_count_witness:
  "updatePassword demo_env (b_password (body demo_request)) (params_email demo_request) demo_store
     = (demo_store\<lparr>rows := [alice\<lparr>password := ''h:builder''\<rparr>]\<rparr>,
        Inr (1, [alice\<lparr>password := ''h:builder''\<rparr>]))
   \<and> sent (resetPassword demo_env demo_request demo_store)
     = SuccessResponse (Text ''Password has been changed successfully'') (Some 200)
   \<and> updatePassword demo_env
        (b_password (body (demo_request\<lparr>params_email := ''bob@example.com''\<rparr>)))
        (params_email (demo_request\<lparr>params_email := ''bob@example.com''\<rparr>)) demo_store
     = (demo_store, Inr (0, []))
   \<and> sent (resetPassword demo_env (demo_request\<lparr>params_email := ''bob@example.com''\<rparr>)
        demo_store)
     = ErrorResponse (JNum 404) (JStr ''User account does not exist'')"
proof -
  let ?r0 = "demo_request\<lparr>params_email := ''bob@example.com''\<rparr>"
  have h1: "updatePassword demo_env (b_password (body demo_request)) (params_email demo_request)
      demo_store
     = (demo_store\<lparr>rows := [alice\<lparr>password := ''h:builder''\<rparr>]\<rparr>,
        Inr (1, [alice\<lparr>password := ''h:builder''\<rparr>]))"
    by (simp add: updatePassword_def User_update_def Let_def demo_defs)
  have h0: "updatePassword demo_env (b_password (body ?r0)) (params_email ?r0) demo_store
     = (demo_store, Inr (0, []))"
    by (simp add: updatePassword_def User_update_def Let_def demo_defs)
  from resetPassword_row_count [OF h1] resetPassword_row_count [OF h0] h1 h0
  show ?thesis by simp
qed

text \<open>
  C6. \<open>sendResetPasswordEmail\<close>: when no user has the body email the operation fails
  with status 404 and "User account does not exist", and the mailer is not called. When
  the user exists, a token over \<open>{firstName, id, email}\<close> with lifetime \<open>24h\<close> is issued
  and the mailer is called once, with a reset link that embeds the token; when the mailer
  answers \<open>false\<close> the operation fails with code 404 and the boolean \<open>false\<close> as
  message, and when it answers \<open>true\<close> the response is 200 with a confirmation string.
\<close>

theorem sendResetPasswordEmail_cases:
  "(find_user (b_email (body req)) d = Inr None
      \<longrightarrow> sent (sendResetPasswordEmail e req d)
            = ErrorResponse (JNum 404) (JStr ''User account does not exist'')
          \<and> mails (sendResetPasswordEmail e req d) = [])
   \<and> (find_user (b_email (body req)) d = Inr (Some user)
      \<longrightarrow> (let tok = generateToken e
                   \<lparr>c_id = uid user, c_email = Some (b_email (body req)), c_role = None,
                    c_firstName = Some (firstName user)\<rparr> (Some ''24h'');
               m = \<lparr>rm_email = b_email (body req), rm_firstName = firstName user,
                    resetPasswordLink = protocol req @ ''://'' @ host req
                      @ ''/api/auth/reset-password?token='' @ tok\<rparr>
           in mails (sendResetPasswordEmail e req d) = [ResetMail m]
              \<and> (\<not> sendResetMail e m
                   \<longrightarrow> sent (sendResetPasswordEmail e req d)
                        = ErrorResponse (JNum 404) (JBool False))
              \<and> (sendResetMail e m
                   \<longrightarrow> sent (sendResetPasswordEmail e req d)
                        = SuccessResponse (Text ''Password reset link sent successfully'')
                            (Some 200))))"
  by (simp add: sendResetPasswordEmail_def respond_def status_catch_def ApiError_def
      or_else_def Let_def)

theorem sendResetPasswordEmail_cases_witness:
  "find_user (b_email (body demo_request)) demo_store = Inr None
   \<and> sent (sendResetPasswordEmail demo_env demo_request demo_store)
       = ErrorResponse (JNum 404) (JStr ''User account does not exist'')
   \<and> find_user (b_email (body (demo_request\<lparr>body := bob_body\<lparr>b_email := ''alice@example.com''\<rparr>\<rparr>)))
       demo_store = Inr (Some alice)
   \<and> mails (sendResetPasswordEmail demo_env
        (demo_request\<lparr>body := bob_body\<lparr>b_email := ''alice@example.com''\<rparr>\<rparr>) demo_store)
       = [ResetMail \<lparr>rm_email = ''alice@example.com'', rm_firstName = ''Alice'',
            resetPasswordLink = ''http://localhost/api/auth/reset-password?token=jwt1''\<rparr>]
   \<and> sent (sendResetPasswordEmail demo_env
        (demo_request\<lparr>body := bob_body\<lparr>b_email := ''alice@example.com''\<rparr>\<rparr>) demo_store)
       = ErrorResponse (JNum 404) (JBool False)
   \<and> sent (sendResetPasswordEmail (demo_env\<lparr>sendResetMail := \<lambda>m. True\<rparr>)
        (demo_request\<lparr>body := bob_body\<lparr>b_email := ''alice@example.com''\<rparr>\<rparr>) demo_store)
       = SuccessResponse (Text ''Password reset link sent successfully'') (Some 200)"
proof -
  let ?r = "demo_request\<lparr>body := bob_body\<lparr>b_email := ''alice@example.com''\<rparr>\<rparr>"
  let ?ok = "demo_env\<lparr>sendResetMail := \<lambda>m. True\<rparr>"
  have h0: "find_user (b_email (body demo_request)) demo_store = Inr None"
    by (simp add: find_user_def User_findOne_def demo_defs)
  have h1: "find_user (b_email (body ?r)) demo_store = Inr (Some alice)"
    by (simp add: find_user_def User_findOne_def demo_defs)
  have tok: "generateToken demo_env
        \<lparr>c_id = uid alice, c_email = Some (b_email (body ?r)), c_role = None,
         c_firstName = Some (firstName alice)\<rparr> (Some ''24h'') = ''jwt1''"
    by (simp add: demo_defs digit_char_def)
  have flds: "b_email (body ?r) = ''alice@example.com''" "firstName alice = ''Alice''"
    "protocol ?r = ''http''" "host ?r = ''localhost''"
    by (simp_all add: demo_defs)
  have no: "\<And>m. \<not> sendResetMail demo_env m" by (simp add: demo_defs)
  have yes: "\<And>m. sendResetMail ?ok m" by simp
  from sendResetPasswordEmail_cases [where e = demo_env and req = demo_request
      and d = demo_store and user = alice] h0
  have c0: "sent (sendResetPasswordEmail demo_env demo_request demo_store)
       = ErrorResponse (JNum 404) (JStr ''User account does not exist'')"
    by simp
  from sendResetPasswordEmail_cases [where e = demo_env and req = ?r
      and d = demo_store and user = alice] h1 no tok flds
  have c1: "mails (sendResetPasswordEmail demo_env ?r demo_store)
       = [ResetMail \<lparr>rm_email = ''alice@example.com'', rm_firstName = ''Alice'',
            resetPasswordLink = ''http://localhost/api/auth/reset-password?token=jwt1''\<rparr>]
     \<and> sent (sendResetPasswordEmail demo_env ?r demo_store) = ErrorResponse (JNum 404) (JBool False)"
    by (simp add: Let_def)
  from sendResetPasswordEmail_cases [where e = ?ok and req = ?r
      and d = demo_store and user = alice] h1 yes
  have c2: "sent (sendResetPasswordEmail ?ok ?r demo_store)
       = SuccessResponse (Text ''Password reset link sent successfully'') (Some 200)"
    by (simp add: Let_def)
  from h0 h1 c0 c1 c2 show ?thesis by simp
qed

subsection \<open>Email verification\<close>

text \<open>
  C4. The failure mapping of \<open>verifyEmail\<close>: a token whose verification throws the
  error with message "Invalid Token" gives status 400 with "Invalid token, verification
  unsuccessful"; a valid token whose decoded id matches no user row gives status 400 with
  "no user found to verify" and leaves the store as it was; any other error, thrown by
  the verifier or by the store, gives the generic error response: \<open>errorResponse\<close> is
  called with neither a code nor a message.
\<close>

theorem verifyEmail_failure_mapping:
  "(verifyToken e (query_token req) = Inl err \<and> message err = JStr ''Invalid Token''
      \<longrightarrow> sent (verifyEmail e req d)
          = ErrorResponse (JNum 400) (JStr ''Invalid token, verification unsuccessful''))
   \<and> (verifyToken e (query_token req) = Inr decoded \<and> fault d = None
        \<and> \<not> list_ex (\<lambda>u. uid u = c_id decoded) (rows d)
      \<longrightarrow> sent (verifyEmail e req d) = ErrorResponse (JNum 400) (JStr ''no user found to verify'')
          \<and> db (verifyEmail e req d) = d)
   \<and> ((verifyToken e (query_token req) = Inl err
        \<or> (verifyToken e (query_token req) = Inr decoded \<and> fault d = Some err))
       \<and> message err \<noteq> JStr ''Invalid Token'' \<and> message err \<noteq> JStr ''Not Found''
      \<longrightarrow> sent (verifyEmail e req d) = ErrorResponse JUndefined JUndefined)"
proof (intro conjI impI)
  assume "verifyToken e (query_token req) = Inl err \<and> message err = JStr ''Invalid Token''"
  then show "sent (verifyEmail e req d)
      = ErrorResponse (JNum 400) (JStr ''Invalid token, verification unsuccessful'')"
    by (simp add: verifyEmail_def verifyEmail_catch_def respond_def)
next
  assume a: "verifyToken e (query_token req) = Inr decoded \<and> fault d = None
        \<and> \<not> list_ex (\<lambda>u. uid u = c_id decoded) (rows d)"
  then have none: "filter (\<lambda>u. uid u = c_id decoded) (rows d) = []"
    by (auto simp add: list_ex_iff filter_empty_conv)
  then have same: "map (\<lambda>u. if uid u = c_id decoded then u\<lparr>isVerified := True\<rparr> else u) (rows d) = rows d"
    by (induction "rows d") (auto simp add: filter_empty_conv map_idI)
  from a none same
  show "sent (verifyEmail e req d) = ErrorResponse (JNum 400) (JStr ''no user found to verify'')"
    by (simp add: verifyEmail_def updateById_def User_update_def verifyEmail_catch_def
        respond_def Error_def)
  from a none same
  show "db (verifyEmail e req d) = d"
    by (simp add: verifyEmail_def updateById_def User_update_def verifyEmail_catch_def
        respond_def Error_def)
next
  assume "(verifyToken e (query_token req) = Inl err
        \<or> (verifyToken e (query_token req) = Inr decoded \<and> fault d = Some err))
       \<and> message err \<noteq> JStr ''Invalid Token'' \<and> message err \<noteq> JStr ''Not Found''"
  then show "sent (verifyEmail e req d) = ErrorResponse JUndefined JUndefined"
    by (auto simp add: verifyEmail_def updateById_def User_update_def verifyEmail_catch_def
        respond_def)
qed

theorem verifyEmail_failure_mapping_witness:
  "verifyToken demo_env (query_token demo_request) = Inl (Error ''Invalid Token'')
   \<and> sent (verifyEmail demo_env demo_request demo_store)
       = ErrorResponse (JNum 400) (JStr ''Invalid token, verification unsuccessful'')
   \<and> verifyToken demo_env (query_token (demo_request\<lparr>query_token := Some ''jwt1''\<rparr>))
       = Inr alice_claims
   \<and> \<not> list_ex (\<lambda>u. uid u = c_id alice_claims) (rows (demo_store\<lparr>rows := []\<rparr>))
   \<and> sent (verifyEmail demo_env (demo_request\<lparr>query_token := Some ''jwt1''\<rparr>)
         (demo_store\<lparr>rows := []\<rparr>))
       = ErrorResponse (JNum 400) (JStr ''no user found to verify'')
   \<and> fault (demo_store\<lparr>fault := Some (Error ''connect ECONNREFUSED'')\<rparr>)
       = Some (Error ''connect ECONNREFUSED'')
   \<and> sent (verifyEmail demo_env (demo_request\<lparr>query_token := Some ''jwt1''\<rparr>)
         (demo_store\<lparr>fault := Some (Error ''connect ECONNREFUSED'')\<rparr>))
       = ErrorResponse JUndefined JUndefined"
proof -
  let ?r = "demo_request\<lparr>query_token := Some ''jwt1''\<rparr>"
  let ?empty = "demo_store\<lparr>rows := []\<rparr>"
  let ?refused = "Error ''connect ECONNREFUSED''"
  let ?down = "demo_store\<lparr>fault := Some ?refused\<rparr>"
  have h1: "verifyToken demo_env (query_token demo_request) = Inl (Error ''Invalid Token'')"
    by (simp add: demo_defs)
  have m1: "message (Error ''Invalid Token'') = JStr ''Invalid Token''"
    by (simp add: Error_def)
  have h2: "verifyToken demo_env (query_token ?r) = Inr alice_claims"
    by (simp add: demo_defs)
  have f2: "fault ?empty = None" by (simp add: demo_defs)
  have n2: "\<not> list_ex (\<lambda>u. uid u = c_id alice_claims) (rows ?empty)" by simp
  have f3: "fault ?down = Some ?refused" by simp
  have m3: "message ?refused \<noteq> JStr ''Invalid Token'' \<and> message ?refused \<noteq> JStr ''Not Found''"
    by (simp add: Error_def)
  from verifyEmail_failure_mapping [where e = demo_env and req = demo_request
      and err = "Error ''Invalid Token''" and d = demo_store and decoded = alice_claims] h1 m1
  have c1: "sent (verifyEmail demo_env demo_request demo_store)
       = ErrorResponse (JNum 400) (JStr ''Invalid token, verification unsuccessful'')"
    by blast
  from verifyEmail_failure_mapping [where e = demo_env and req = ?r
      and err = ?refused and d = ?empty and decoded = alice_claims] h2 f2 n2
  have c2: "sent (verifyEmail demo_env ?r ?empty)
       = ErrorResponse (JNum 400) (JStr ''no user found to verify'')"
    by blast
  from verifyEmail_failure_mapping [where e = demo_env and req = ?r
      and err = ?refused and d = ?down and decoded = alice_claims] h2 f3 m3
  have c3: "sent (verifyEmail demo_env ?r ?down) = ErrorResponse JUndefined JUndefined"
    by blast
  from h1 h2 n2 f3 c1 c2 c3 show ?thesis by blast
qed

subsection \<open>Signup\<close>

text \<open>
  C7. When signup persists the user, the verification mail cannot abort the request: the
  response is 201 with the shaped user and the flag \<open>emailSent\<close>, which is the mailer's
  answer and is false exactly when the mail provider rejected the mail; the issued token
  is in the shaped user and is set as the cookie \<open>token\<close>, httpOnly, with a max-age of
  24 hours in milliseconds.
\<close>

theorem signUp_mail_failure_does_not_abort:
  assumes "create e (body req) d = (b', d', Inr created)"
  shows "(let tok = generateToken e
                \<lparr>c_id = uid created, c_email = Some (email created),
                 c_role = Some (role created), c_firstName = None\<rparr> None;
              userResponse = UserResponse (created\<lparr>token := Some tok\<rparr>);
              isSent = fst (sendVerificationEmail e req userResponse);
              m = snd (sendVerificationEmail e req userResponse)
          in sent (signUp e req d) = SuccessResponse (SignupData userResponse isSent) (Some 201)
             \<and> (isSent = False \<longleftrightarrow> (\<exists>err. sendgrid_send e m = Inl err))
             \<and> cookies (signUp e req d)
                 = [\<lparr>cookie_name = ''token'', cookie_value = Some tok,
                     maxAge = 24 * 60 * 60 * 1000, httpOnly = True\<rparr>]
             \<and> r_token userResponse = Some tok
             \<and> db (signUp e req d) = d')"
  using assms
  by (auto simp add: signUp_def Let_def UserResponse_def sendVerificationEmail_def
      split: prod.splits sum.splits)

theorem signUp_mail_failure_does_not_abort_witness:
  "(\<exists>b' d' created. create demo_env (body demo_request) demo_store = (b', d', Inr created))
   \<and> (\<exists>r. sent (signUp demo_env demo_request demo_store)
            = SuccessResponse (SignupData r False) (Some 201)
          \<and> r_email r = ''bob@example.com'' \<and> r_token r = Some ''jwt2'')
   \<and> cookies (signUp demo_env demo_request demo_store)
       = [\<lparr>cookie_name = ''token'', cookie_value = Some ''jwt2'',
           maxAge = 86400000, httpOnly = True\<rparr>]"
proof -
  let ?created = "\<lparr>uid = 2, email = ''bob@example.com'', password = ''h:builder'',
      firstName = ''Bob'', lastName = ''Stone'', role = ''user'',
      isVerified = False, token = None\<rparr>"
  have h: "create demo_env (body demo_request) demo_store
      = (bob_body\<lparr>b_password := ''h:builder''\<rparr>,
         demo_store\<lparr>rows := [alice, ?created]\<rparr>, Inr ?created)"
    by (simp add: create_def User_create_def Let_def fresh_id_def demo_defs)
  have tok: "generateToken demo_env
      \<lparr>c_id = uid ?created, c_email = Some (email ?created),
       c_role = Some (role ?created), c_firstName = None\<rparr> None = ''jwt2''"
    by (simp add: demo_defs digit_char_def)
  have rej: "\<And>m. sendgrid_send demo_env m = Inl (Error ''Unauthorized'')"
    by (simp add: demo_defs)
  from signUp_mail_failure_does_not_abort [OF h] tok rej
  have "sent (signUp demo_env demo_request demo_store)
          = SuccessResponse (SignupData (UserResponse (?created\<lparr>token := Some ''jwt2''\<rparr>)) False)
              (Some 201)
      \<and> cookies (signUp demo_env demo_request demo_store)
       = [\<lparr>cookie_name = ''token'', cookie_value = Some ''jwt2'',
           maxAge = 86400000, httpOnly = True\<rparr>]"
    by (simp add: Let_def)
  with h show ?thesis by (simp add: UserResponse_def)
qed

text \<open>
  C10. \<open>UserService.create\<close> overwrites the password of the object it is given with
  the hash, before it persists and whether or not persisting succeeds: the caller's
  object afterwards holds the hash, which is not the plaintext wherever the hasher changes
  its input, and a returned record holds the hash as well.
\<close>

theorem create_overwrites_password:
  "fst (create e user d) = user\<lparr>b_password := hashPassword e (b_password user)\<rparr>
   \<and> (hashPassword e (b_password user) \<noteq> b_password user
        \<longrightarrow> b_password (fst (create e user d)) \<noteq> b_password user)
   \<and> (\<forall>created. snd (snd (create e user d)) = Inr created
        \<longrightarrow> password created = hashPassword e (b_password user))"
  by (auto simp add: create_def User_create_def Let_def split: option.splits if_splits)

theorem create_overwrites_password_witness:
  "fst (create demo_env bob_body demo_store) = bob_body\<lparr>b_password := ''h:builder''\<rparr>
   \<and> hashPassword demo_env (b_password bob_body) \<noteq> b_password bob_body
   \<and> b_password (fst (create demo_env bob_body demo_store)) \<noteq> b_password bob_body
   \<and> (\<exists>created. snd (snd (create demo_env bob_body demo_store)) = Inr created
        \<and> password created = ''h:builder'')"
proof -
  have hp: "hashPassword demo_env (b_password bob_body) = ''h:builder''"
    by (simp add: demo_defs)
  have ne: "hashPassword demo_env (b_password bob_body) \<noteq> b_password bob_body"
    by (simp add: demo_defs)
  have ok: "\<exists>created. snd (snd (create demo_env bob_body demo_store)) = Inr created"
    by (simp add: create_def User_create_def Let_def demo_defs)
  from create_overwrites_password [of demo_env bob_body demo_store] hp ne ok
  show ?thesis by auto
qed

subsection \<open>The verification flag\<close>

















subsection \<open>Token codec\<close>

text \<open>
  C9. Verifying a token issued from some claims, before its time to live has elapsed,
  gives back the same claims next to the added expiry (round trip); verifying it once the
  time to live has elapsed fails with \<open>InvalidToken\<close>.
\<close>

theorem token_roundtrip_and_expiry:
  "(now < issued + (case ttl of None \<Rightarrow> default_ttl k | Some t \<Rightarrow> t)
      \<longrightarrow> map_sum (\<lambda>x. x) fst (verify k now (issue k issued c ttl)) = Inr c)
   \<and> (issued + (case ttl of None \<Rightarrow> default_ttl k | Some t \<Rightarrow> t) \<le> now
      \<longrightarrow> verify k now (issue k issued c ttl) = Inl InvalidToken)"
  by (simp add: verify_def decode_def issue_def Let_def)

theorem token_roundtrip_and_expiry_witness:
  "(1000::nat) < 1000 + 86400
   \<and> map_sum (\<lambda>x. x) fst (verify demo_codec 1000 (issue demo_codec 1000 alice_claims (Some 86400)))
       = Inr alice_claims
   \<and> (1000::nat) + 86400 \<le> 90000
   \<and> verify demo_codec 90000 (issue demo_codec 1000 alice_claims (Some 86400)) = Inl InvalidToken"
  using token_roundtrip_and_expiry [where now = 1000 and issued = 1000 and ttl = "Some 86400"
      and k = demo_codec and c = alice_claims]
    token_roundtrip_and_expiry [where now = 90000 and issued = 1000 and ttl = "Some 86400"
      and k = demo_codec and c = alice_claims]
  by simp

end
